theory Spec2Isabelle
  imports Main "HOL-Library.AList"
begin

section \<open>Strings, bytes and the system random source\<close>

text \<open>
  A Python \<open>str\<close> is a sequence of Unicode code points and a \<open>bytes\<close> value a
  sequence of numbers below 256. Key identifiers hold code points far beyond one byte,
  so a string is modelled as the list of its code points and \<open>len\<close> is \<open>length\<close>.
  ASCII literals of the source are written with \<open>u\<close>.
\<close>

type_synonym ustring = "nat list"
type_synonym bytes = "nat list"

definition u :: "string \<Rightarrow> ustring" where
  "u s = map of_char s"

text \<open>
  Every random value of the script comes from the operating system
  (\<open>secrets\<close>, \<open>uuid.uuid4\<close>, \<open>nacl.utils.random\<close>). The source is modelled as the
  sequence of outcomes it will deliver, in the order they are consumed: \<open>r 0\<close> is
  the next outcome. A draw below \<open>n\<close> reduces the outcome modulo \<open>n\<close>, so every
  sequence is a possible run and every possible run is some sequence.
\<close>

type_synonym rng = "nat \<Rightarrow> nat"

definition advance :: "nat \<Rightarrow> rng \<Rightarrow> rng" where
  "advance k r = (\<lambda>i. r (i + k))"

definition randbelow :: "nat \<Rightarrow> rng \<Rightarrow> nat \<times> rng" where
  "randbelow n r = (r 0 mod n, advance 1 r)"

text \<open>
  \<open>secrets.choice(seq)\<close> is \<open>seq[randbelow(len(seq))]\<close>. Every sequence the script
  passes is a non-empty literal, so the \<open>IndexError\<close> of an empty sequence cannot
  arise (\<open>charlist_nonempty\<close> below).
\<close>

definition choice :: "'a list \<Rightarrow> rng \<Rightarrow> 'a \<times> rng" where
  "choice xs r = (let (i, r') = randbelow (length xs) r in (xs ! i, r'))"

section \<open>Key identifiers: \<open>generate_unid\<close>\<close>

definition include_ranges :: "(nat \<times> nat) list" where
  "include_ranges =
    [ (0x0021, 0x007E), (0x00A1, 0x00AC), (0x00AE, 0x00FF), (0x0100, 0x017F),
      (0x0180, 0x024F), (0x0250, 0x02AF), (0x0370, 0x0377), (0x037A, 0x037E),
      (0x0384, 0x038A), (0x038C, 0x038C), (0x038E, 0x03FF), (0x0400, 0x04FF),
      (0x0500, 0x052F), (0x0600, 0x06FF), (0x0750, 0x077F), (0x16A0, 0x16F0),
      (0x1E00, 0x1EFF), (0x2600, 0x26FF), (0x2700, 0x27BF), (0x2C60, 0x2C7F),
      (0xA720, 0xA7AD) ]"

text \<open>
  \<open>[get_char(code_point) for current_range in include_ranges
        for code_point in range(current_range[0], current_range[1] + 1)]\<close>;
  a one-character string is its code point.
\<close>

definition charlist :: "nat list" where
  "charlist = concat (map (\<lambda>current_range. [fst current_range ..< snd current_range + 1])
                          include_ranges)"

text \<open>\<open>secrets.choice(charlist) for i in range(length)\<close>: one draw per character.\<close>

fun choices :: "nat \<Rightarrow> rng \<Rightarrow> ustring \<times> rng" where
  "choices 0 r = ([], r)"
| "choices (Suc k) r =
     (let (c, r1) = choice charlist r;
          (cs, r2) = choices k r1
      in (c # cs, r2))"

definition generate_unid :: "int \<Rightarrow> rng \<Rightarrow> ustring \<times> rng" where
  "generate_unid length0 r =
     (let length1 = (if length0 < 50 then 50 else length0)
      in choices (nat length1) r)"

section \<open>Random bytes and identifiers in UUID form\<close>

text \<open>\<open>os.urandom(n)\<close> and \<open>nacl.utils.random(n)\<close>: \<open>n\<close> bytes of the random source.\<close>

definition nacl_random :: "nat \<Rightarrow> rng \<Rightarrow> bytes \<times> rng" where
  "nacl_random n r = (map (\<lambda>i. r i mod 256) [0..<n], advance n r)"

text \<open>
  Modelled from the spec: \<open>uuid.uuid4\<close> and \<open>str\<close> of its result are Python's
  library, absent from the repository. The spec asks for a fresh random 128-bit
  identifier, externally representable as a canonical UUID string. The model draws
  16 random bytes, sets the version and variant bits of a version-4 UUID and writes
  the 32 lower-case hexadecimal digits in groups of 8, 4, 4, 4 and 12.
\<close>

definition hexdigit :: "nat \<Rightarrow> nat" where
  "hexdigit d = u ''0123456789abcdef'' ! d"

definition hex2 :: "nat \<Rightarrow> ustring" where
  "hex2 b = [hexdigit (b div 16), hexdigit (b mod 16)]"

definition uuid_bytes :: "bytes \<Rightarrow> bytes" where
  "uuid_bytes bs = bs[6 := bs ! 6 mod 16 + 64, 8 := bs ! 8 mod 64 + 128]"

definition uuid_str :: "bytes \<Rightarrow> ustring" where
  "uuid_str bs =
     (let hex = concat (map hex2 bs)
      in take 8 hex @ u ''-'' @ take 4 (drop 8 hex) @ u ''-'' @ take 4 (drop 12 hex) @
         u ''-'' @ take 4 (drop 16 hex) @ u ''-'' @ drop 20 hex)"

definition uuid4 :: "rng \<Rightarrow> ustring \<times> rng" where
  "uuid4 r = (let (bs, r') = nacl_random 16 r in (uuid_str (uuid_bytes bs), r'))"

text \<open>The form of a canonical UUID string, character by character.\<close>

definition is_hex :: "nat \<Rightarrow> bool" where
  "is_hex c = (c \<in> set (u ''0123456789abcdef''))"

definition uuid_form :: "ustring \<Rightarrow> bool" where
  "uuid_form s =
     list_all2 (\<lambda>p c. if p = of_char CHR ''-'' then c = p else is_hex c)
       (u ''xxxxxxxx-xxxx-xxxx-xxxx-xxxxxxxxxxxx'') s"

section \<open>The libraries the script calls\<close>

text \<open>
  The cryptography, the encodings and the passphrase generator are libraries
  (PyNaCl, \<open>base64\<close>, \<open>diceware\<close>); the script only calls them. They are parameters
  of the model, with the constants they export. \<open>secretbox_seal key nonce message\<close> is
  the sealed message of a secret box and \<open>secretbox_open key nonce sealed\<close> opens it,
  or fails; the script calls the first only. \<open>get_passphrase\<close> builds the passphrase
  from the positions it draws in its word list, one for each of the \<open>num\<close> words.
\<close>

record options =
  num :: nat
  caps :: bool
  specials :: nat
  delimiter :: ustring
  randomsource :: ustring
  wordlist :: ustring
  infile :: "ustring option"

record lib =
  argon2id_SALTBYTES :: nat
  argon2id_OPSLIMIT_INTERACTIVE :: nat
  argon2id_MEMLIMIT_INTERACTIVE :: nat
  argon2id_kdf :: "nat \<Rightarrow> bytes \<Rightarrow> bytes \<Rightarrow> nat \<Rightarrow> nat \<Rightarrow> bytes"
  b85encode :: "bytes \<Rightarrow> ustring"
  utf8 :: "ustring \<Rightarrow> bytes"
  scalarmult_base :: "bytes \<Rightarrow> bytes"
  SecretBox_NONCE_SIZE :: nat
  secretbox_seal :: "bytes \<Rightarrow> bytes \<Rightarrow> bytes \<Rightarrow> bytes"
  secretbox_open :: "bytes \<Rightarrow> bytes \<Rightarrow> bytes \<Rightarrow> bytes option"
  get_passphrase :: "options \<Rightarrow> nat list \<Rightarrow> ustring"

text \<open>
  Modelled from the spec: \<open>nacl.secret.SecretBox.KEY_SIZE\<close> and the size of a
  Curve25519 private key are constants of PyNaCl; the spec fixes symmetric keys at
  256 bits, and a Curve25519 scalar has the same size.
\<close>

definition KEY_SIZE :: nat where
  "KEY_SIZE = 32"

definition PrivateKey_SIZE :: nat where
  "PrivateKey_SIZE = 32"

definition PrivateKey_generate :: "rng \<Rightarrow> bytes \<times> rng" where
  "PrivateKey_generate r = nacl_random PrivateKey_SIZE r"

text \<open>\<open>rgen.randint(a, b)\<close> and \<open>rgen.randrange(a, b)\<close> of \<open>secrets.SystemRandom\<close>.\<close>

definition randint :: "nat \<Rightarrow> nat \<Rightarrow> rng \<Rightarrow> nat \<times> rng" where
  "randint a b r = (let (k, r') = randbelow (b - a + 1) r in (a + k, r'))"

definition randrange :: "nat \<Rightarrow> nat \<Rightarrow> rng \<Rightarrow> nat \<times> rng" where
  "randrange a b r = (let (k, r') = randbelow (b - a) r in (a + k, r'))"

definition generate_password :: "lib \<Rightarrow> rng \<Rightarrow> ustring \<times> rng" where
  "generate_password L r =
     (let options = \<lparr> num = 3, caps = True, specials = 0, delimiter = [],
                       randomsource = u ''system'', wordlist = u ''en_eff'', infile = None \<rparr>
      in (get_passphrase L options (map r [0..<num options]), advance (num options) r))"

section \<open>The account\<close>

text \<open>
  A key is a dictionary of one of two shapes: a key pair or a symmetric key. Reading a
  field of the other shape is the \<open>KeyError\<close> of the accessors below.
\<close>

datatype key =
    Keypair (ktype: ustring) (purpose: ustring) (kid: ustring)
            (public_key: bytes) (private_key: bytes) (public_b85: ustring) (private_b85: ustring)
  | Secret (ktype: ustring) (purpose: ustring) (kid: ustring)
           (skey: bytes) (key_b85: ustring)

record device =
  dev_id :: ustring
  dev_key :: key

record account =
  wid :: ustring
  friendly_address :: ustring
  password :: ustring
  pwsalt :: bytes
  pwsalt_b85 :: ustring
  pwhash :: bytes
  pwhash_b85 :: ustring
  status :: ustring
  keys :: "key list"
  folder_map :: "(ustring \<times> ustring) list"
  devices :: "device list"

definition first_names :: "ustring list" where
  "first_names = map u
     [ ''Leanne'', ''Lauryn'', ''Cheryl'', ''Addie'', ''Lynnette'', ''Meredith'', ''Jay'',
       ''Bernie'', ''Kenneth'', ''Harding'', ''Elissa'', ''Beth'', ''Vance'', ''Holden'',
       ''Careen'', ''Jackie'', ''Laurence'', ''Grover'', ''Megan'', ''Daniel'', ''Shelby'',
       ''Desmond'', ''Jason'', ''Patton'', ''Harvey'', ''Dylan'', ''Eleanor'', ''Grace'',
       ''Randall'', ''Carmen'', ''Lewis'' ]"

definition last_names :: "ustring list" where
  "last_names = map u
     [ ''Rennoll'', ''Layton'', ''Page'', ''Steffen'', ''Wilbur'', ''Clifford'', ''Ridge'',
       ''Norton'', ''Haden'', ''Smith'', ''Harris'', ''Bush'', ''Addison'', ''Warren'',
       ''Armstrong'', ''Radcliff'', ''Stern'', ''Jernigan'', ''Tucker'', ''Blackwood'',
       ''Gray'', ''Eaton'', ''Bissette'', ''Albert'', ''Rogers'', ''Tyrrell'', ''Randall'',
       ''Ramsey'', ''Parish'', ''Towner'', ''Granville'' ]"

text \<open>The two dictionary literals that describe a key.\<close>

definition keypair_dict :: "lib \<Rightarrow> ustring \<Rightarrow> ustring \<Rightarrow> bytes \<Rightarrow> key" where
  "keypair_dict L purp ident priv =
     Keypair (u ''ed25519'') purp ident (scalarmult_base L priv) priv
       (b85encode L (scalarmult_base L priv)) (b85encode L priv)"

definition secret_dict :: "lib \<Rightarrow> ustring \<Rightarrow> ustring \<Rightarrow> bytes \<Rightarrow> key" where
  "secret_dict L purp ident k = Secret (u ''aes256'') purp ident k (b85encode L k)"

text \<open>
  The loop \<open>while i < dev_count\<close>: a fresh key pair, then the device record with its
  identifier and the identifier of its key, appended to the list.
\<close>

function devices_loop :: "lib \<Rightarrow> nat \<Rightarrow> nat \<Rightarrow> device list \<Rightarrow> rng \<Rightarrow> device list \<times> rng" where
  "devices_loop L dev_count i devs r =
     (if i < dev_count then
        (let (devkey, r1) = PrivateKey_generate r;
             (did, r2) = uuid4 r1;
             (ident, r3) = generate_unid 50 r2
         in devices_loop L dev_count (i + 1)
              (devs @ [\<lparr> dev_id = did, dev_key = keypair_dict L (u ''identity'') ident devkey \<rparr>])
              r3)
      else (devs, r))"
  by pat_completeness auto
termination
  by (relation "measure (\<lambda>(L, dev_count, i, devs, r). dev_count - i)") auto

definition generate_account :: "lib \<Rightarrow> rng \<Rightarrow> account \<times> rng" where
  "generate_account L r0 =
     (let (wid0, r1) = uuid4 r0;
          (n1, r2) = randint 1 100 r1;
          (friendly, r3) =
             (if n1 < 51 then
                (let (first, ra) = choice first_names r2;
                     (last, rb) = choice last_names ra
                 in (concat [first, u '' '', last, u ''/example.com''], rb))
              else ([], r2));
          (password0, r4) = generate_password L r3;
          (salt, r5) = nacl_random (argon2id_SALTBYTES L) r4;
          pwhash0 = argon2id_kdf L KEY_SIZE (utf8 L password0) salt
                      (argon2id_OPSLIMIT_INTERACTIVE L) (argon2id_MEMLIMIT_INTERACTIVE L);
          (n2, r6) = randint 1 100 r5;
          status0 = (if n2 < 76 then u ''active'' else u ''disabled'');
          (identity, r7) = PrivateKey_generate r6;
          (contact_request, r8) = PrivateKey_generate r7;
          (firstdevice, r9) = PrivateKey_generate r8;
          (broadcast_aes, r10) = nacl_random KEY_SIZE r9;
          (system_aes, r11) = nacl_random KEY_SIZE r10;
          (folder_aes, r12) = nacl_random KEY_SIZE r11;
          (id0, r13) = generate_unid 50 r12;
          (id1, r14) = generate_unid 50 r13;
          (id2, r15) = generate_unid 50 r14;
          (id3, r16) = generate_unid 50 r15;
          (id4, r17) = generate_unid 50 r16;
          (id5, r18) = generate_unid 50 r17;
          (f0, r19) = uuid4 r18;
          (f1, r20) = uuid4 r19;
          (f2, r21) = uuid4 r20;
          (f3, r22) = uuid4 r21;
          (f4, r23) = uuid4 r22;
          (f5, r24) = uuid4 r23;
          (f6, r25) = uuid4 r24;
          (dev_count, r26) = randrange 1 6 r25;
          (devs, r27) = devices_loop L dev_count 0 [] r26
      in (\<lparr> wid = wid0,
            friendly_address = friendly,
            password = password0,
            pwsalt = salt,
            pwsalt_b85 = b85encode L salt,
            pwhash = pwhash0,
            pwhash_b85 = b85encode L pwhash0,
            status = status0,
            keys =
              [ keypair_dict L (u ''identity'') id0 identity,
                keypair_dict L (u ''contact_request'') id1 contact_request,
                keypair_dict L (u ''firstdevice'') id2 firstdevice,
                secret_dict L (u ''broadcast'') id3 broadcast_aes,
                secret_dict L (u ''system'') id4 system_aes,
                secret_dict L (u ''folder'') id5 folder_aes ],
            folder_map =
              [ (u ''Messages'', f0), (u ''Contacts'', f1), (u ''Calendar'', f2),
                (u ''Tasks'', f3), (u ''Files'', f4), (u ''Files Attachments'', f5),
                (u ''Social'', f6) ],
            devices = devs \<rparr>, r27))"







section \<open>The database connection\<close>

text \<open>
  The server holds named objects, each in a schema: tables, other relations (a view, a
  sequence, an index, a foreign table) and data types. A table stands for itself
  together with the sequence and the index of its \<open>SERIAL PRIMARY KEY\<close> column, whose
  names the server chooses so that they clash with nothing. An object may refer to
  others (a view to the tables it selects from, a table to the table it inherits
  from); \<open>owned\<close> says whether the session's user may drop it (it owns the object, and
  the object is not part of the system catalogue). Within a schema a name denotes one
  object only.

  An unqualified name is looked up in the schemas of the search path, in order: the
  schemas searched before the current one (by default the session's temporary schema,
  when it has one, and the system catalogue), the current schema, then the rest of
  the path. New objects go to the current schema.
\<close>

datatype relkind = Table | OtherRelation | DataType

record relation =
  schemaname :: ustring
  relname :: ustring
  relkind :: relkind
  owned :: bool
  refers_to :: "(ustring \<times> ustring) list"
  columns :: "(ustring \<times> ustring) list"
  rows :: "ustring list list"

record database =
  searched_first :: "ustring list"
  current_schema :: ustring
  searched_after :: "ustring list"
  relations :: "relation list"

definition relid :: "relation \<Rightarrow> ustring \<times> ustring" where
  "relid x = (schemaname x, relname x)"

definition search_path :: "database \<Rightarrow> ustring list" where
  "search_path d = searched_first d @ [current_schema d] @ searched_after d"

text \<open>The view \<open>pg_tables\<close> lists the tables, and no other relation.\<close>

definition pg_tables :: "database \<Rightarrow> relation list" where
  "pg_tables d = filter (\<lambda>x. relkind x = Table) (relations d)"

text \<open>The relation that a name of a schema denotes, and the one an unqualified name denotes.\<close>

definition in_schema :: "ustring \<Rightarrow> ustring \<Rightarrow> relation list \<Rightarrow> relation option" where
  "in_schema s name xs =
     find (\<lambda>x. schemaname x = s \<and> relname x = name \<and> relkind x \<noteq> DataType) xs"

fun resolve_in :: "ustring list \<Rightarrow> ustring \<Rightarrow> relation list \<Rightarrow> relation option" where
  "resolve_in [] name xs = None"
| "resolve_in (s # ss) name xs =
     (case in_schema s name xs of
        Some x \<Rightarrow> Some x
      | None \<Rightarrow> resolve_in ss name xs)"

definition resolve :: "ustring \<Rightarrow> database \<Rightarrow> relation option" where
  "resolve name d = resolve_in (search_path d) name (relations d)"

datatype dberror =
    DuplicateTable ustring
  | DuplicateObject ustring
  | UndefinedTable ustring
  | WrongObjectType ustring
  | InsufficientPrivilege ustring
  | SyntaxError ustring
  | InFailedSqlTransaction
  | ServerError ustring

type_synonym statement = "database \<Rightarrow> dberror + database"

text \<open>
  A text sent to the server holds a sequence of commands: statements, which change the
  database or fail, and the commands that end a transaction. The server parses the
  whole text before it runs any of it.
\<close>

datatype command = Run statement | Commit | Rollback

text \<open>
  The server runs the statements of a session in a transaction, and other sessions see
  the committed database only. A transaction is a block that a \<open>BEGIN\<close> opened
  (\<open>Active\<close>, with the database as the block sees it; \<open>Aborted\<close> once a statement of
  the block has failed) or, for the statements of one text outside of a block, an
  implicit block that the server commits at the end of the text.
\<close>

datatype txn = Idle | Active database | Aborted | Implicit database

text \<open>
  A \<open>psycopg2\<close> connection sends \<open>BEGIN\<close> before the first text it executes and
  remembers that it did (\<open>begun\<close>) until \<open>commit\<close> or \<open>rollback\<close> is called; it does
  not notice when a text ends the transaction itself.
\<close>

record connection =
  committed :: database
  txn :: txn
  begun :: bool

definition snapshot :: "connection \<Rightarrow> database" where
  "snapshot c =
     (case txn c of
        Active w \<Rightarrow> w
      | Implicit w \<Rightarrow> w
      | Idle \<Rightarrow> committed c
      | Aborted \<Rightarrow> committed c)"

text \<open>
  One command on the server. In a block a failed statement aborts the block, and every
  later statement is refused until the block is ended; ending an aborted block
  discards its work. Outside of a block a failed statement undoes the implicit block
  it ran in.
\<close>

fun server_step :: "command \<Rightarrow> connection \<Rightarrow> (dberror \<times> connection) + connection" where
  "server_step (Run stmt) c =
     (case txn c of
        Aborted \<Rightarrow> Inl (InFailedSqlTransaction, c)
      | Active w0 \<Rightarrow>
          (case stmt w0 of
             Inl e \<Rightarrow> Inl (e, c\<lparr>txn := Aborted\<rparr>)
           | Inr w \<Rightarrow> Inr (c\<lparr>txn := Active w\<rparr>))
      | Idle \<Rightarrow>
          (case stmt (committed c) of
             Inl e \<Rightarrow> Inl (e, c)
           | Inr w \<Rightarrow> Inr (c\<lparr>txn := Implicit w\<rparr>))
      | Implicit w0 \<Rightarrow>
          (case stmt w0 of
             Inl e \<Rightarrow> Inl (e, c\<lparr>txn := Idle\<rparr>)
           | Inr w \<Rightarrow> Inr (c\<lparr>txn := Implicit w\<rparr>)))"
| "server_step Commit c =
     (case txn c of
        Active w \<Rightarrow> Inr (c\<lparr>committed := w, txn := Idle\<rparr>)
      | Implicit w \<Rightarrow> Inr (c\<lparr>committed := w, txn := Idle\<rparr>)
      | Idle \<Rightarrow> Inr c
      | Aborted \<Rightarrow> Inr (c\<lparr>txn := Idle\<rparr>))"
| "server_step Rollback c = Inr (c\<lparr>txn := Idle\<rparr>)"

text \<open>The end of a text: the server commits the implicit block, if one is open.\<close>

definition end_of_text :: "connection \<Rightarrow> connection" where
  "end_of_text c =
     (case txn c of
        Implicit w \<Rightarrow> c\<lparr>committed := w, txn := Idle\<rparr>
      | Idle \<Rightarrow> c
      | Active w \<Rightarrow> c
      | Aborted \<Rightarrow> c)"

fun run_script :: "command list \<Rightarrow> connection \<Rightarrow> (dberror \<times> connection) + connection" where
  "run_script [] c = Inr (end_of_text c)"
| "run_script (k # ks) c =
     (case server_step k c of
        Inl x \<Rightarrow> Inl x
      | Inr c' \<Rightarrow> run_script ks c')"

text \<open>The \<open>BEGIN\<close> of the driver, sent unless it remembers an earlier one.\<close>

definition send_begin :: "connection \<Rightarrow> connection" where
  "send_begin c =
     (if begun c then c
      else c\<lparr>txn := (case txn c of
                       Idle \<Rightarrow> Active (committed c)
                     | Implicit w \<Rightarrow> Active w
                     | Active w \<Rightarrow> Active w
                     | Aborted \<Rightarrow> Aborted),
             begun := True\<rparr>)"

text \<open>
  \<open>cursor.execute\<close> on what the server reads in the text: its commands, or the error of
  a text it cannot parse, which fails like a statement without running anything.
\<close>

definition reject :: "connection \<Rightarrow> connection" where
  "reject c =
     c\<lparr>txn := (case txn c of
                  Active w \<Rightarrow> Aborted
                | Implicit w \<Rightarrow> Idle
                | Idle \<Rightarrow> Idle
                | Aborted \<Rightarrow> Aborted)\<rparr>"

definition execute ::
  "dberror + command list \<Rightarrow> connection \<Rightarrow> (dberror \<times> connection) + connection" where
  "execute parsed c =
     (case parsed of
        Inl e \<Rightarrow> Inl (e, reject (send_begin c))
      | Inr ks \<Rightarrow> run_script ks (send_begin c))"

text \<open>\<open>connection.commit()\<close>: a \<open>COMMIT\<close>, which also ends what the driver remembers.\<close>

definition commit :: "connection \<Rightarrow> connection" where
  "commit c =
     (case txn c of
        Active w \<Rightarrow> c\<lparr>committed := w, txn := Idle, begun := False\<rparr>
      | Implicit w \<Rightarrow> c\<lparr>committed := w, txn := Idle, begun := False\<rparr>
      | Idle \<Rightarrow> c\<lparr>begun := False\<rparr>
      | Aborted \<Rightarrow> c\<lparr>txn := Idle, begun := False\<rparr>)"

section \<open>The statements of \<open>reset_database\<close>\<close>

text \<open>
  The objects that go when the object \<open>t\<close> is dropped with \<open>CASCADE\<close>: \<open>t\<close> itself and
  every object that refers to it, directly or through others.
\<close>

definition depends :: "relation list \<Rightarrow> ((ustring \<times> ustring) \<times> (ustring \<times> ustring)) set" where
  "depends xs = (\<Union>x \<in> set xs. (\<lambda>y. (relid x, y)) ` set (refers_to x))"

definition cascade :: "ustring \<times> ustring \<Rightarrow> database \<Rightarrow> database" where
  "cascade t d =
     d\<lparr>relations := filter (\<lambda>x. (relid x, t) \<notin> (depends (relations d))\<^sup>*) (relations d)\<rparr>"

text \<open>
  \<open>DROP TABLE IF EXISTS name CASCADE\<close>, the name being unqualified: nothing happens
  when the search path has no relation of that name; the relation found must be a
  table that the user may drop.
\<close>

definition drop_table_if_exists :: "ustring \<Rightarrow> statement" where
  "drop_table_if_exists name d =
     (case resolve name d of
        None \<Rightarrow> Inr d
      | Some x \<Rightarrow>
          if relkind x \<noteq> Table then Inl (WrongObjectType name)
          else if \<not> owned x then Inl (InsufficientPrivilege name)
          else Inr (cascade (relid x) d))"

text \<open>
  The \<open>DO\<close> block: for every row of
  \<open>SELECT tablename FROM pg_tables WHERE schemaname = current_schema()\<close>, read when the
  loop starts, drop the table of that name; \<open>quote_ident\<close> makes the text denote
  exactly that name. The first error ends the block.
\<close>

fun drop_each :: "ustring list \<Rightarrow> statement" where
  "drop_each [] d = Inr d"
| "drop_each (name # names) d =
     (case drop_table_if_exists name d of
        Inl e \<Rightarrow> Inl e
      | Inr d' \<Rightarrow> drop_each names d')"

definition dropcmd :: statement where
  "dropcmd d =
     drop_each (map relname (filter (\<lambda>x. schemaname x = current_schema d) (pg_tables d))) d"

text \<open>
  \<open>CREATE TABLE name(columns)\<close>: an error when the current schema has a relation or a
  data type of that name; the user owns the new table.
\<close>

definition create_table :: "ustring \<Rightarrow> (ustring \<times> ustring) list \<Rightarrow> statement" where
  "create_table name cols d =
     (case find (\<lambda>x. schemaname x = current_schema d \<and> relname x = name) (relations d) of
        Some x \<Rightarrow>
          if relkind x = DataType then Inl (DuplicateObject name) else Inl (DuplicateTable name)
      | None \<Rightarrow>
          Inr (d\<lparr>relations := relations d @
                  [\<lparr> schemaname = current_schema d, relname = name, relkind = Table,
                     owned = True, refers_to = [], columns = cols, rows = [] \<rparr>]\<rparr>))"

definition create_iwkspc_main :: statement where
  "create_iwkspc_main =
     create_table (u ''iwkspc_main'')
       [ (u ''id'', u ''SERIAL PRIMARY KEY''), (u ''wid'', u ''char(36) NOT NULL''),
         (u ''friendly_address'', u ''VARCHAR(48) NULL''),
         (u ''password'', u ''VARCHAR(128) NOT NULL''),
         (u ''status'', u ''VARCHAR(16) NOT NULL'') ]"

definition create_iwkspc_folders :: statement where
  "create_iwkspc_folders =
     create_table (u ''iwkspc_folders'')
       [ (u ''id'', u ''SERIAL PRIMARY KEY''), (u ''fid'', u ''char(36) NOT NULL''),
         (u ''wid'', u ''char(36) NOT NULL''), (u ''enc_name'', u ''VARCHAR(128) NOT NULL''),
         (u ''enc_key'', u ''VARCHAR(64) NOT NULL'') ]"

definition create_iwkspc_sessions :: statement where
  "create_iwkspc_sessions =
     create_table (u ''iwkspc_sessions'')
       [ (u ''id'', u ''SERIAL PRIMARY KEY''), (u ''wid'', u ''char(36) NOT NULL''),
         (u ''devid'', u ''char(36) NOT NULL''),
         (u ''device_key'', u ''VARCHAR(128) NOT NULL'') ]"

datatype error = IndexError | KeyError | ValueError | CryptoError | DatabaseError dberror

text \<open>\<open>cursor.execute(cmd)\<close>, its exception carrying the state of the connection.\<close>

definition cursor_execute ::
  "dberror + command list \<Rightarrow> connection \<Rightarrow> (error \<times> connection) + connection" where
  "cursor_execute parsed c =
     (case execute parsed c of
        Inl (e, c') \<Rightarrow> Inl (DatabaseError e, c')
      | Inr c' \<Rightarrow> Inr c')"

text \<open>
  The four texts of \<open>reset_database\<close> are fixed; the server reads one statement in
  each.
\<close>

definition reset_database :: "connection \<Rightarrow> (error \<times> connection) + connection" where
  "reset_database dbconn =
     (case cursor_execute (Inr [Run dropcmd]) dbconn of
        Inl x \<Rightarrow> Inl x
      | Inr c1 \<Rightarrow>
     (case cursor_execute (Inr [Run create_iwkspc_main]) c1 of
        Inl x \<Rightarrow> Inl x
      | Inr c2 \<Rightarrow>
     (case cursor_execute (Inr [Run create_iwkspc_folders]) c2 of
        Inl x \<Rightarrow> Inl x
      | Inr c3 \<Rightarrow>
     (case cursor_execute (Inr [Run create_iwkspc_sessions]) c3 of
        Inl x \<Rightarrow> Inl x
      | Inr c4 \<Rightarrow> Inr (commit c4)))))"

section \<open>Writing an account: \<open>add_account_to_db\<close>\<close>

text \<open>
  The \<open>INSERT\<close> statements are built as text from the account's fields. What the
  server reads in a text is the parameter \<open>sql\<close>: the commands of the text, or the
  error of a text that it cannot parse. A text may hold several commands, and among
  them commands that end the transaction.
\<close>

type_synonym server = "ustring \<Rightarrow> dberror + command list"

definition sq :: ustring where
  "sq = [39]"

definition list_get :: "'a list \<Rightarrow> nat \<Rightarrow> error + 'a" where
  "list_get xs i = (if i < length xs then Inr (xs ! i) else Inl IndexError)"

definition field_key :: "key \<Rightarrow> error + bytes" where
  "field_key k = (case k of Secret t p i sk b \<Rightarrow> Inr sk | Keypair t p i pk sk pb sb \<Rightarrow> Inl KeyError)"

definition field_key_b85 :: "key \<Rightarrow> error + ustring" where
  "field_key_b85 k = (case k of Secret t p i sk b \<Rightarrow> Inr b | Keypair t p i pk sk pb sb \<Rightarrow> Inl KeyError)"

definition field_public_b85 :: "key \<Rightarrow> error + ustring" where
  "field_public_b85 k = (case k of Keypair t p i pk sk pb sb \<Rightarrow> Inr pb | Secret t p i sk b \<Rightarrow> Inl KeyError)"

definition field_private_b85 :: "key \<Rightarrow> error + ustring" where
  "field_private_b85 k = (case k of Keypair t p i pk sk pb sb \<Rightarrow> Inr sb | Secret t p i sk b \<Rightarrow> Inl KeyError)"

text \<open>
  \<open>nacl.secret.SecretBox(key)\<close> refuses a key of another size; \<open>box.encrypt\<close> draws
  a fresh nonce and returns it in front of the sealed message.
\<close>

definition SecretBox :: "bytes \<Rightarrow> error + bytes" where
  "SecretBox k = (if length k = KEY_SIZE then Inr k else Inl ValueError)"

definition box_encrypt :: "lib \<Rightarrow> bytes \<Rightarrow> bytes \<Rightarrow> rng \<Rightarrow> bytes \<times> rng" where
  "box_encrypt L box plaintext r =
     (let (nonce, r') = nacl_random (SecretBox_NONCE_SIZE L) r
      in (nonce @ secretbox_seal L box nonce plaintext, r'))"

definition main_cmd :: "account \<Rightarrow> ustring" where
  "main_cmd account =
     (let cmdparts =
            [ u ''INSERT INTO iwkspc_main(wid,friendly_address,password,status) VALUES('' @ sq,
              wid account,
              sq @ u '','' ];
          cmdparts =
            (if length (friendly_address account) > 0
             then cmdparts @ [sq, friendly_address account, sq @ u '','']
             else cmdparts @ [sq @ sq @ u '','']);
          cmdparts =
            cmdparts @ [u ''$$'', pwhash_b85 account, u ''$$,'' @ sq, status account,
                        sq @ u '');'']
      in concat cmdparts)"

definition folder_cmd :: "ustring \<Rightarrow> ustring \<Rightarrow> ustring \<Rightarrow> ustring \<Rightarrow> ustring" where
  "folder_cmd wid0 fid enc_name enc_key =
     u ''INSERT INTO iwkspc_folders(wid, fid, enc_name, enc_key) VALUES('' @ sq @ wid0 @
     sq @ u '','' @ sq @ fid @ sq @ u '','' @ sq @ enc_name @ sq @ u '',$$'' @ enc_key @
     u ''$$);''"

definition session_cmd :: "ustring \<Rightarrow> ustring \<Rightarrow> ustring \<Rightarrow> ustring" where
  "session_cmd wid0 devid device_key =
     u ''INSERT INTO iwkspc_sessions(wid, devid, device_key) VALUES('' @ sq @ wid0 @
     sq @ u '','' @ sq @ devid @ sq @ u '',$$'' @ device_key @ u ''$$);''"

text \<open>\<open>for folder_name, fid in account['folder_map'].items()\<close>.\<close>

fun folders_loop ::
  "server \<Rightarrow> lib \<Rightarrow> account \<Rightarrow> bytes \<Rightarrow> (ustring \<times> ustring) list \<Rightarrow>
   connection \<Rightarrow> rng \<Rightarrow> (error \<times> connection) + (connection \<times> rng)" where
  "folders_loop sql L account box [] c r = Inr (c, r)"
| "folders_loop sql L account box ((folder_name, fid) # rest) c r =
     (let (enc, r') = box_encrypt L box (utf8 L folder_name) r
      in case list_get (keys account) 5 of
           Inl e \<Rightarrow> Inl (e, c)
         | Inr k5 \<Rightarrow>
             (case cursor_execute
                     (sql (folder_cmd (wid account) fid (b85encode L enc) (kid k5))) c of
                Inl x \<Rightarrow> Inl x
              | Inr c' \<Rightarrow> folders_loop sql L account box rest c' r'))"

text \<open>\<open>while i < len(account['devices'])\<close>.\<close>

function sessions_loop ::
  "server \<Rightarrow> account \<Rightarrow> nat \<Rightarrow> connection \<Rightarrow> (error \<times> connection) + connection"
  where
  "sessions_loop sql account i c =
     (if i < length (devices account) then
        (case field_public_b85 (dev_key (devices account ! i)) of
           Inl e \<Rightarrow> Inl (e, c)
         | Inr pb \<Rightarrow>
             (case cursor_execute
                     (sql (session_cmd (wid account) (dev_id (devices account ! i)) pb)) c of
                Inl x \<Rightarrow> Inl x
              | Inr c' \<Rightarrow> sessions_loop sql account (i + 1) c'))
      else Inr c)"
  by pat_completeness auto
termination
  by (relation "measure (\<lambda>(sql, account, i, c). length (devices account) - i)") auto

definition add_account_to_db ::
  "server \<Rightarrow> lib \<Rightarrow> account \<Rightarrow> connection \<Rightarrow> rng \<Rightarrow>
   (error \<times> connection) + (connection \<times> rng)" where
  "add_account_to_db sql L account dbconn r =
     (case cursor_execute (sql (main_cmd account)) dbconn of
        Inl x \<Rightarrow> Inl x
      | Inr c1 \<Rightarrow>
     (case list_get (keys account) 5 of
        Inl e \<Rightarrow> Inl (e, c1)
      | Inr k5 \<Rightarrow>
     (case field_key k5 of
        Inl e \<Rightarrow> Inl (e, c1)
      | Inr folder_key \<Rightarrow>
     (case SecretBox folder_key of
        Inl e \<Rightarrow> Inl (e, c1)
      | Inr box \<Rightarrow>
     (case folders_loop sql L account box (folder_map account) c1 r of
        Inl x \<Rightarrow> Inl x
      | Inr (c2, r') \<Rightarrow>
     (case sessions_loop sql account 0 c2 of
        Inl x \<Rightarrow> Inl x
      | Inr c3 \<Rightarrow> Inr (commit c3, r')))))))"

section \<open>The operator's report: \<open>dump_account\<close>\<close>

function str_nat :: "nat \<Rightarrow> ustring" where
  "str_nat n = (if n < 10 then [48 + n] else str_nat (n div 10) @ [48 + n mod 10])"
  by pat_completeness auto
termination
  by (relation "measure (\<lambda>n. n)") auto

definition bind :: "error + 'a \<Rightarrow> ('a \<Rightarrow> error + 'b) \<Rightarrow> error + 'b" where
  "bind m f = (case m of Inl e \<Rightarrow> Inl e | Inr x \<Rightarrow> f x)"

definition dict_get :: "(ustring \<times> 'v) list \<Rightarrow> ustring \<Rightarrow> error + 'v" where
  "dict_get d k = (case map_of d k of None \<Rightarrow> Inl KeyError | Some v \<Rightarrow> Inr v)"

text \<open>
  A dictionary literal: the values are computed in order and the first error wins; a
  new key is appended, a repeated key keeps its place and takes the later value.
\<close>

fun dict_literal ::
  "(ustring \<times> ustring) list \<Rightarrow> (ustring \<times> (error + ustring)) list \<Rightarrow>
   error + (ustring \<times> ustring) list" where
  "dict_literal acc [] = Inr acc"
| "dict_literal acc ((k, v) # rest) = bind v (\<lambda>x. dict_literal (AList.update k x acc) rest)"

text \<open>\<open>"Device #%s ID" % str(i+1)\<close> and the two other labels of a device.\<close>

definition device_label :: "nat \<Rightarrow> string \<Rightarrow> ustring" where
  "device_label i suffix = u ''Device #'' @ str_nat (i + 1) @ u suffix"

function dump_loop ::
  "account \<Rightarrow> nat \<Rightarrow> (ustring \<times> ustring) list \<Rightarrow> error + (ustring \<times> ustring) list" where
  "dump_loop account i out =
     (if i < length (devices account) then
        (let out1 = AList.update (device_label i '' ID'') (dev_id (devices account ! i)) out
         in bind (field_public_b85 (dev_key (devices account ! i))) (\<lambda>pb.
            let out2 = AList.update (device_label i '' Public.b85'') pb out1
            in bind (field_private_b85 (dev_key (devices account ! i))) (\<lambda>sb.
               let out3 = AList.update (device_label i '' Private.b85'') sb out2
               in dump_loop account (i + 1) out3)))
      else Inr out)"
  by pat_completeness auto
termination
  by (relation "measure (\<lambda>(account, i, out). length (devices account) - i)") auto

definition dump_literal :: "account \<Rightarrow> error + (ustring \<times> ustring) list" where
  "dump_literal account =
     (dict_literal []
       [ (u ''Workspace ID'', Inr (wid account)),
         (u ''Friendly Address'', Inr (friendly_address account)),
         (u ''Status'', Inr (status account)),
         (u ''Password'', Inr (password account)),
         (u ''Password Salt.b85'', Inr (pwsalt_b85 account)),
         (u ''Password Hash.b85'', Inr (pwhash_b85 account)),
         (u ''Identity Public.b85'', bind (list_get (keys account) 0) field_public_b85),
         (u ''Identity Private.b85'', bind (list_get (keys account) 0) field_private_b85),
         (u ''Contact Public.b85'', bind (list_get (keys account) 1) field_public_b85),
         (u ''Contact Private.b85'', bind (list_get (keys account) 1) field_private_b85),
         (u ''First Device Public.b85'', bind (list_get (keys account) 2) field_public_b85),
         (u ''First Device Private.b85'', bind (list_get (keys account) 2) field_private_b85),
         (u ''Broadcast.b85'', bind (list_get (keys account) 3) field_key_b85),
         (u ''System.b85'', bind (list_get (keys account) 4) field_key_b85),
         (u ''Folder Map.b85'', bind (list_get (keys account) 5) field_key_b85),
         (u ''Message Folder'', dict_get (folder_map account) (u ''Messages'')),
         (u ''Contacts Folder'', dict_get (folder_map account) (u ''Contacts'')),
         (u ''Calendar Folder'', dict_get (folder_map account) (u ''Calendar'')),
         (u ''Tasks Folder'', dict_get (folder_map account) (u ''Tasks'')),
         (u ''Files Folder'', dict_get (folder_map account) (u ''Files'')),
         (u ''Attachments Folder'', dict_get (folder_map account) (u ''Files Attachments'')),
         (u ''Social Folder'', dict_get (folder_map account) (u ''Social'')) ])"

definition dump_out :: "account \<Rightarrow> error + (ustring \<times> ustring) list" where
  "dump_out account = bind (dump_literal account) (\<lambda>out. dump_loop account 0 out)"

text \<open>The lines printed: one for every entry of \<open>out\<close>, then an empty line.\<close>

definition dump_account :: "account \<Rightarrow> error + ustring list" where
  "dump_account account =
     bind (dump_out account) (\<lambda>out. Inr (map (\<lambda>(k, v). k @ u '' : '' @ v) out @ [[]]))"

section \<open>What the writer sends, statement by statement\<close>

text \<open>
  The specification of the writer: one statement for the workspace row, one for each
  folder in the order of the folder map, one for each device in order. The folder
  names are sealed under the key at index 5, each with the next nonce of the random
  source, and every folder statement names that key's identifier.
\<close>

fun folder_statements ::
  "lib \<Rightarrow> ustring \<Rightarrow> bytes \<Rightarrow> ustring \<Rightarrow> (ustring \<times> ustring) list \<Rightarrow> rng \<Rightarrow> ustring list" where
  "folder_statements L w folder_key folder_kid [] r = []"
| "folder_statements L w folder_key folder_kid ((folder_name, fid) # rest) r =
     folder_cmd w fid (b85encode L (fst (box_encrypt L folder_key (utf8 L folder_name) r)))
       folder_kid
     # folder_statements L w folder_key folder_kid rest
         (snd (box_encrypt L folder_key (utf8 L folder_name) r))"

definition session_statements :: "account \<Rightarrow> ustring list" where
  "session_statements a =
     map (\<lambda>d. session_cmd (wid a) (dev_id d) (public_b85 (dev_key d))) (devices a)"

definition account_statements :: "lib \<Rightarrow> account \<Rightarrow> rng \<Rightarrow> ustring list" where
  "account_statements L a r =
     main_cmd a
     # folder_statements L (wid a) (skey (keys a ! 5)) (kid (keys a ! 5)) (folder_map a) r
     @ session_statements a"

text \<open>
  What the writer reads of an account: the four fields of the workspace row, the
  identifier and the raw key of the key at index 5, the folder map, and for every
  device its identifier and the printable form of its public key.
\<close>

definition writer_view ::
  "account \<Rightarrow> ustring \<times> ustring \<times> ustring \<times> ustring \<times> (error + ustring \<times> (error + bytes)) \<times>
     (ustring \<times> ustring) list \<times> (ustring \<times> (error + ustring)) list" where
  "writer_view a =
     (wid a, friendly_address a, pwhash_b85 a, status a,
      (case list_get (keys a) 5 of Inl e \<Rightarrow> Inl e | Inr k \<Rightarrow> Inr (kid k, field_key k)),
      folder_map a,
      map (\<lambda>d. (dev_id d, field_public_b85 (dev_key d))) (devices a))"

text \<open>
  The sealed name of a folder as the writer stores it, given the key, the nonce and
  the name: the base-85 form of the nonce followed by the sealed bytes of the name.
\<close>

definition sealed_name :: "lib \<Rightarrow> bytes \<Rightarrow> bytes \<Rightarrow> ustring \<Rightarrow> ustring" where
  "sealed_name L k nonce name = b85encode L (nonce @ secretbox_seal L k nonce (utf8 L name))"

text \<open>The nonce of the \<open>i\<close>-th folder, read from the random source of the writer.\<close>

definition nonce_at :: "lib \<Rightarrow> rng \<Rightarrow> nat \<Rightarrow> bytes" where
  "nonce_at L r i =
     fst (nacl_random (SecretBox_NONCE_SIZE L) (advance (i * SecretBox_NONCE_SIZE L) r))"

text \<open>
  The texts in which the server reads statements only, and what such a text does to
  the database: its statements one after the other, up to the first that fails.
\<close>

fun is_run :: "command \<Rightarrow> bool" where
  "is_run (Run stmt) = True"
| "is_run Commit = False"
| "is_run Rollback = False"

definition plain :: "dberror + command list \<Rightarrow> bool" where
  "plain parsed = (case parsed of Inl e \<Rightarrow> True | Inr ks \<Rightarrow> list_all is_run ks)"

fun run_statements :: "command list \<Rightarrow> statement" where
  "run_statements [] d = Inr d"
| "run_statements (Run stmt # ks) d =
     (case stmt d of Inl e \<Rightarrow> Inl e | Inr d' \<Rightarrow> run_statements ks d')"
| "run_statements (Commit # ks) d = run_statements ks d"
| "run_statements (Rollback # ks) d = run_statements ks d"

definition effect :: "dberror + command list \<Rightarrow> statement" where
  "effect parsed d = (case parsed of Inl e \<Rightarrow> Inl e | Inr ks \<Rightarrow> run_statements ks d)"

text \<open>The server running a list of such texts on a database, up to the first error.\<close>

fun run_all :: "server \<Rightarrow> ustring list \<Rightarrow> database \<Rightarrow> dberror + database" where
  "run_all sql [] d = Inr d"
| "run_all sql (cmd # cmds) d =
     (case effect (sql cmd) d of Inl e \<Rightarrow> Inl e | Inr d' \<Rightarrow> run_all sql cmds d')"

text \<open>
  The accounts the writer is meant for: six keys, the sixth a symmetric key of the
  secret-box size, and a key pair for every device.
\<close>

definition is_keypair :: "key \<Rightarrow> bool" where
  "is_keypair k = (case k of Keypair t p i pk sk pb sb \<Rightarrow> True | Secret t p i sk b \<Rightarrow> False)"

definition assembled :: "account \<Rightarrow> bool" where
  "assembled a =
     (length (keys a) = 6 \<and> \<not> is_keypair (keys a ! 5) \<and> length (skey (keys a ! 5)) = KEY_SIZE \<and>
      list_all (\<lambda>d. is_keypair (dev_key d)) (devices a))"

text \<open>
  An account with its private material erased: the passphrase, every private key, the
  broadcast and system keys and the printable form of every symmetric key. The raw
  folder key stays, since the writer seals the folder names with it.
\<close>

definition redact_key :: "key \<Rightarrow> key" where
  "redact_key k =
     (case k of
        Keypair t p i pk sk pb sb \<Rightarrow> Keypair t p i pk [] pb []
      | Secret t p i sk b \<Rightarrow> Secret t p i [] [])"

definition redact_folder_key :: "key \<Rightarrow> key" where
  "redact_folder_key k =
     (case k of
        Keypair t p i pk sk pb sb \<Rightarrow> Keypair t p i pk [] pb []
      | Secret t p i sk b \<Rightarrow> Secret t p i sk [])"

definition redact :: "account \<Rightarrow> account" where
  "redact a =
     a\<lparr> password := [],
        keys := map redact_key (take 5 (keys a)) @ map redact_folder_key (take 1 (drop 5 (keys a)))
                @ map redact_key (drop 6 (keys a)),
        devices := map (\<lambda>d. d\<lparr>dev_key := redact_key (dev_key d)\<rparr>) (devices a) \<rparr>"

section \<open>Reading a folder name back\<close>

text \<open>
  Modelled from the spec: the repository only encrypts; no function of it opens a
  sealed folder name. The spec asks that decrypting with the folder key reproduces
  the label and that decrypting with any other generated symmetric key fails with an
  authentication failure. \<open>box_decrypt\<close> is \<open>SecretBox(key).decrypt\<close> of the library
  the writer encrypts with: the nonce is the front of the ciphertext, and the library
  opens the rest or refuses. The two properties that the spec asks of the library
  are \<open>opens_own\<close> and \<open>refuses_other\<close>.
\<close>

definition box_decrypt :: "lib \<Rightarrow> bytes \<Rightarrow> bytes \<Rightarrow> error + bytes" where
  "box_decrypt L box ciphertext =
     (case secretbox_open L box (take (SecretBox_NONCE_SIZE L) ciphertext)
             (drop (SecretBox_NONCE_SIZE L) ciphertext) of
        None \<Rightarrow> Inl CryptoError
      | Some plaintext \<Rightarrow> Inr plaintext)"

definition opens_own :: "lib \<Rightarrow> bool" where
  "opens_own L =
     (\<forall>k nonce m. length k = KEY_SIZE \<longrightarrow>
        secretbox_open L k nonce (secretbox_seal L k nonce m) = Some m)"

definition refuses_other :: "lib \<Rightarrow> bool" where
  "refuses_other L =
     (\<forall>k k' nonce m. length k = KEY_SIZE \<longrightarrow> length k' = KEY_SIZE \<longrightarrow> k' \<noteq> k \<longrightarrow>
        secretbox_open L k' nonce (secretbox_seal L k nonce m) = None)"

text \<open>The folder name sealed by the writer and opened with a key.\<close>

definition reopen :: "lib \<Rightarrow> bytes \<Rightarrow> bytes \<Rightarrow> ustring \<Rightarrow> rng \<Rightarrow> error + bytes" where
  "reopen L folder_key k label r =
     (case SecretBox k of
        Inl e \<Rightarrow> Inl e
      | Inr box \<Rightarrow> box_decrypt L box (fst (box_encrypt L folder_key (utf8 L label) r)))"

section \<open>A stand-in for the libraries\<close>

text \<open>
  Concrete functions in place of the libraries, to run the model on concrete inputs.
  They have the libraries' sizes and none of their cryptography: the seal adds the
  bytes of the key to the bytes of the message, one after the other.
\<close>

definition ref_lib :: lib where
  "ref_lib =
     \<lparr> argon2id_SALTBYTES = 16,
       argon2id_OPSLIMIT_INTERACTIVE = 2,
       argon2id_MEMLIMIT_INTERACTIVE = 67108864,
       argon2id_kdf = (\<lambda>size pw salt ops mem. map (\<lambda>i. (i + length pw) mod 256) [0..<size]),
       b85encode = map (\<lambda>b. 48 + b mod 10),
       utf8 = (\<lambda>s. s),
       scalarmult_base = map (\<lambda>b. (b + 9) mod 256),
       SecretBox_NONCE_SIZE = 24,
       secretbox_seal =
         (\<lambda>k nonce m. map (\<lambda>(b, s). (b + s) mod 256) (zip m (concat (replicate (length m) k)))),
       secretbox_open =
         (\<lambda>k nonce sealed.
            Some (map (\<lambda>(b, s). (b + 256 - s) mod 256)
                    (zip sealed (concat (replicate (length sealed) k))))),
       get_passphrase = (\<lambda>opts draws. u ''CorrectHorseBattery'') \<rparr>"

text \<open>
  A box as the spec describes it, in place of the library's: the sealed text names its
  key, so that opening it under any other key is refused.
\<close>

definition ideal_box :: lib where
  "ideal_box =
     ref_lib\<lparr> secretbox_seal := (\<lambda>k nonce m. k @ m),
              secretbox_open := (\<lambda>k nonce sealed.
                 if take (length k) sealed = k then Some (drop (length k) sealed) else None) \<rparr>"



text \<open>
  A random source that is 0 everywhere but at the 50 draws of the identifier of the
  folder key of the account that \<open>generate_account ref_lib\<close> builds from it; there
  it draws the places in \<open>charlist\<close> of the characters of \<open>payload\<close>.
\<close>

definition spelling :: "ustring \<Rightarrow> rng" where
  "spelling payload = (\<lambda>i. if 481 \<le> i \<and> i < 531 then payload ! (i - 481) - 33 else 0)"

definition commit_payload :: ustring where
  "commit_payload = u ''A$$);COMMIT;--'' @ replicate 36 120"

definition rollback_payload :: ustring where
  "rollback_payload = u ''A$$);ROLLBACK;--'' @ replicate 34 120"

text \<open>A server that accepts every text and stores it as a row of a log table.\<close>

definition log_sql :: server where
  "log_sql cmd =
     Inr [Run (\<lambda>d. Inr (d\<lparr>relations := relations d @
              [\<lparr> schemaname = current_schema d, relname = u ''log'', relkind = Table,
                 owned = True, refers_to = [], columns = [], rows = [[cmd]] \<rparr>]\<rparr>))]"

text \<open>
  A server that reads a text the way PostgreSQL's lexer does, as far as the texts of
  the writer need it: a semicolon ends a command, except inside a string in single
  quotes or in \<open>$$\<close>, and \<open>--\<close> starts a comment that runs to the end of the line. A
  text that ends inside a string is refused. The commands it knows are \<open>COMMIT\<close>,
  \<open>ROLLBACK\<close> and \<open>INSERT INTO\<close> a table, which stores the text of the command as
  a row of that table and fails when the search path has no table of that name.
\<close>

datatype lexstate = Code | Quoted | Dollar | Comment

fun split_commands :: "lexstate \<Rightarrow> ustring \<Rightarrow> ustring \<Rightarrow> ustring list option" where
  "split_commands st acc [] = (if st = Quoted \<or> st = Dollar then None else Some [acc])"
| "split_commands Code acc (c # cs) =
     (if c = 59 then map_option ((#) acc) (split_commands Code [] cs)
      else if c = 39 then split_commands Quoted (acc @ [c]) cs
      else (case cs of
              [] \<Rightarrow> split_commands Code (acc @ [c]) cs
            | c' # cs' \<Rightarrow>
                if c = 36 \<and> c' = 36 then split_commands Dollar (acc @ [c, c']) cs'
                else if c = 45 \<and> c' = 45 then split_commands Comment acc cs'
                else split_commands Code (acc @ [c]) cs))"
| "split_commands Quoted acc (c # cs) =
     (if c = 39 then split_commands Code (acc @ [c]) cs
      else split_commands Quoted (acc @ [c]) cs)"
| "split_commands Dollar acc (c # cs) =
     (case cs of
        [] \<Rightarrow> split_commands Dollar (acc @ [c]) cs
      | c' # cs' \<Rightarrow>
          if c = 36 \<and> c' = 36 then split_commands Code (acc @ [c, c']) cs'
          else split_commands Dollar (acc @ [c]) cs)"
| "split_commands Comment acc (c # cs) =
     (if c = 10 then split_commands Code acc cs else split_commands Comment acc cs)"

definition insert_into :: "ustring \<Rightarrow> ustring \<Rightarrow> statement" where
  "insert_into name cmd d =
     (case resolve name d of
        None \<Rightarrow> Inl (UndefinedTable name)
      | Some x \<Rightarrow>
          if relkind x \<noteq> Table then Inl (WrongObjectType name)
          else Inr (d\<lparr>relations :=
                       map (\<lambda>y. if relid y = relid x then y\<lparr>rows := rows y @ [[cmd]]\<rparr> else y)
                         (relations d)\<rparr>))"

definition read_command :: "ustring \<Rightarrow> dberror + command list" where
  "read_command cmd =
     (let s = dropWhile (\<lambda>c. c = 32) cmd in
      if s = [] then Inr []
      else if s = u ''COMMIT'' then Inr [Commit]
      else if s = u ''ROLLBACK'' then Inr [Rollback]
      else if take 12 s = u ''INSERT INTO '' then
        Inr [Run (insert_into (takeWhile (\<lambda>c. c \<noteq> 40 \<and> c \<noteq> 32) (drop 12 s)) s)]
      else Inl (SyntaxError cmd))"

fun read_commands :: "ustring list \<Rightarrow> dberror + command list" where
  "read_commands [] = Inr []"
| "read_commands (cmd # cmds) =
     (case read_command cmd of
        Inl e \<Rightarrow> Inl e
      | Inr ks \<Rightarrow>
          (case read_commands cmds of
             Inl e \<Rightarrow> Inl e
           | Inr ks' \<Rightarrow> Inr (ks @ ks')))"

definition pg_sql :: server where
  "pg_sql cmd =
     (case split_commands Code [] cmd of
        None \<Rightarrow> Inl (SyntaxError cmd)
      | Some cmds \<Rightarrow> read_commands cmds)"

text \<open>An empty database, and a connection to it that has executed nothing yet.\<close>

definition empty_db :: database where
  "empty_db =
     \<lparr> searched_first = [u ''pg_catalog''], current_schema = u ''public'',
       searched_after = [], relations = [] \<rparr>"

definition connect :: "database \<Rightarrow> connection" where
  "connect d = \<lparr> committed = d, txn = Idle, begun = False \<rparr>"

definition fresh_conn :: connection where
  "fresh_conn = connect empty_db"

section \<open>Auxiliary notions for the proofs\<close>

text \<open>Ranges that are non-empty and lie strictly one after the other.\<close>

fun increasing :: "(nat \<times> nat) list \<Rightarrow> bool" where
  "increasing [] = True"
| "increasing [p] = (fst p \<le> snd p)"
| "increasing (p # q # rs) = (fst p \<le> snd p \<and> snd p < fst q \<and> increasing (q # rs))"

definition flatten :: "(nat \<times> nat) list \<Rightarrow> nat list" where
  "flatten rs = concat (map (\<lambda>current_range. [fst current_range ..< snd current_range + 1]) rs)"

text \<open>What the device loop produces for every device.\<close>

definition device_ok :: "lib \<Rightarrow> device \<Rightarrow> bool" where
  "device_ok L d =
     (uuid_form (dev_id d) \<and>
      (\<exists>ident priv. dev_key d = keypair_dict L (u ''identity'') ident priv \<and>
          length ident = 50 \<and> set ident \<subseteq> set charlist \<and> length priv = PrivateKey_SIZE))"




text \<open>
  The names of the three tables, the tables of the current schema, and the objects
  that go with a set of objects dropped with \<open>CASCADE\<close>.
\<close>

definition three_names :: "ustring list" where
  "three_names = [u ''iwkspc_main'', u ''iwkspc_folders'', u ''iwkspc_sessions'']"

definition current_tables :: "database \<Rightarrow> relation list" where
  "current_tables d = filter (\<lambda>x. schemaname x = current_schema d) (pg_tables d)"

definition dependents ::
  "relation list \<Rightarrow> (ustring \<times> ustring) set \<Rightarrow> (ustring \<times> ustring) set" where
  "dependents xs T = ((depends xs)\<^sup>*)\<inverse> `` T"

text \<open>
  The database that a reset leaves behind: the tables of the current schema are gone
  with everything that referred to them, and the three tables of the script are
  there, empty.
\<close>

definition empty_table :: "ustring \<Rightarrow> ustring \<Rightarrow> (ustring \<times> ustring) list \<Rightarrow> relation" where
  "empty_table s name cols =
     \<lparr> schemaname = s, relname = name, relkind = Table, owned = True, refers_to = [],
       columns = cols, rows = [] \<rparr>"

definition three_tables :: "ustring \<Rightarrow> relation list" where
  "three_tables s =
     [ empty_table s (u ''iwkspc_main'')
         [ (u ''id'', u ''SERIAL PRIMARY KEY''), (u ''wid'', u ''char(36) NOT NULL''),
           (u ''friendly_address'', u ''VARCHAR(48) NULL''),
           (u ''password'', u ''VARCHAR(128) NOT NULL''),
           (u ''status'', u ''VARCHAR(16) NOT NULL'') ],
       empty_table s (u ''iwkspc_folders'')
         [ (u ''id'', u ''SERIAL PRIMARY KEY''), (u ''fid'', u ''char(36) NOT NULL''),
           (u ''wid'', u ''char(36) NOT NULL''), (u ''enc_name'', u ''VARCHAR(128) NOT NULL''),
           (u ''enc_key'', u ''VARCHAR(64) NOT NULL'') ],
       empty_table s (u ''iwkspc_sessions'')
         [ (u ''id'', u ''SERIAL PRIMARY KEY''), (u ''wid'', u ''char(36) NOT NULL''),
           (u ''devid'', u ''char(36) NOT NULL''),
           (u ''device_key'', u ''VARCHAR(128) NOT NULL'') ] ]"

definition reset_state :: "database \<Rightarrow> database" where
  "reset_state d =
     d\<lparr>relations :=
         filter (\<lambda>x. relid x \<notin> dependents (relations d) (relid ` set (current_tables d)))
           (relations d) @
         three_tables (current_schema d)\<rparr>"

text \<open>
  The conditions of a reset. A catalogue is well formed when a name denotes one object
  of a schema only and every reference leads to an object. A name is shadowed when
  another schema of the search path has a relation of that name, and occupied when
  the current schema has an object of that name that is not a table.
\<close>

definition well_formed :: "database \<Rightarrow> bool" where
  "well_formed d =
     (distinct (map relid (relations d)) \<and>
      (\<forall>x \<in> set (relations d). set (refers_to x) \<subseteq> relid ` set (relations d)))"

definition shadowed :: "database \<Rightarrow> ustring \<Rightarrow> bool" where
  "shadowed d name =
     (\<exists>s \<in> set (search_path d). s \<noteq> current_schema d \<and> in_schema s name (relations d) \<noteq> None)"

definition occupied :: "database \<Rightarrow> ustring \<Rightarrow> bool" where
  "occupied d name =
     (\<exists>x \<in> set (relations d).
        schemaname x = current_schema d \<and> relname x = name \<and> relkind x \<noteq> Table)"

definition resettable :: "database \<Rightarrow> bool" where
  "resettable d =
     (well_formed d \<and>
      (\<forall>name \<in> set (map relname (current_tables d)) \<union> set three_names. \<not> shadowed d name) \<and>
      (\<forall>name \<in> set three_names. \<not> occupied d name) \<and>
      (\<forall>x \<in> set (current_tables d). owned x))"

text \<open>
  Databases for the reset: one with an old table in the current schema, a view on it
  and a table in another schema; one where the session has a temporary table named
  like a table of the script; one where a view has that name; one where the user may
  not drop a table.
\<close>

definition plain_table :: "ustring \<Rightarrow> ustring \<Rightarrow> ustring list list \<Rightarrow> relation" where
  "plain_table s name rs =
     \<lparr> schemaname = s, relname = name, relkind = Table, owned = True, refers_to = [],
       columns = [], rows = rs \<rparr>"

definition used_db :: database where
  "used_db =
     \<lparr> searched_first = [u ''pg_catalog''], current_schema = u ''public'',
       searched_after = [],
       relations =
         [ plain_table (u ''public'') (u ''iwkspc_main'') [[u ''old row'']],
           (plain_table (u ''archive'') (u ''report'') [])
             \<lparr> relkind := OtherRelation, refers_to := [(u ''public'', u ''iwkspc_main'')] \<rparr>,
           plain_table (u ''archive'') (u ''kept'') [[u ''1'']] ] \<rparr>"

definition used_conn :: connection where
  "used_conn = connect used_db"

definition temp_db :: database where
  "temp_db =
     \<lparr> searched_first = [u ''pg_temp_3'', u ''pg_catalog''], current_schema = u ''public'',
       searched_after = [],
       relations = [ plain_table (u ''pg_temp_3'') (u ''iwkspc_main'') [[u ''scratch'']] ] \<rparr>"

definition view_db :: database where
  "view_db =
     \<lparr> searched_first = [u ''pg_catalog''], current_schema = u ''public'',
       searched_after = [],
       relations =
         [ (plain_table (u ''public'') (u ''iwkspc_main'') []) \<lparr> relkind := OtherRelation \<rparr> ] \<rparr>"

definition foreign_db :: database where
  "foreign_db =
     \<lparr> searched_first = [u ''pg_catalog''], current_schema = u ''public'',
       searched_after = [],
       relations = [ (plain_table (u ''public'') (u ''audit'') []) \<lparr> owned := False \<rparr> ] \<rparr>"

text \<open>
  Databases for the writer: the one that a reset of the empty database leaves, and one
  that lacks the table of the sessions.
\<close>

definition schema_db :: database where
  "schema_db = empty_db\<lparr>relations := three_tables (u ''public'')\<rparr>"

definition no_sessions_db :: database where
  "no_sessions_db = empty_db\<lparr>relations := take 2 (three_tables (u ''public''))\<rparr>"

text \<open>The number of rows of every relation of a database.\<close>

definition row_counts :: "database \<Rightarrow> (ustring \<times> nat) list" where
  "row_counts d = map (\<lambda>x. (relname x, length (rows x))) (relations d)"

text \<open>A connection executing a list of statements, up to the first exception.\<close>

fun execute_all ::
  "server \<Rightarrow> ustring list \<Rightarrow> connection \<Rightarrow> (error \<times> connection) + connection" where
  "execute_all sql [] c = Inr c"
| "execute_all sql (cmd # cmds) c =
     (case cursor_execute (sql cmd) c of Inl x \<Rightarrow> Inl x | Inr c' \<Rightarrow> execute_all sql cmds c')"

text \<open>
  A connection whose driver and server agree on whether a transaction is open, as
  they do until a text ends the transaction itself.
\<close>

definition in_step :: "connection \<Rightarrow> bool" where
  "in_step c =
     (case txn c of
        Idle \<Rightarrow> \<not> begun c
      | Active w \<Rightarrow> begun c
      | Aborted \<Rightarrow> begun c
      | Implicit w \<Rightarrow> False)"

text \<open>Reading a decimal numeral back.\<close>

definition nat_of_digits :: "ustring \<Rightarrow> nat" where
  "nat_of_digits ds = foldl (\<lambda>acc d. 10 * acc + (d - 48)) 0 ds"

section \<open>Properties of \<open>generate_unid\<close>\<close>

lemma advance_0: "advance 0 r = r"
  by (simp add: advance_def)

lemma advance_advance: "advance j (advance k r) = advance (k + j) r"
  by (simp add: advance_def fun_eq_iff ac_simps)

lemma advance_apply: "advance k r i = r (i + k)"
  by (simp add: advance_def)

lemma choice_eq: "choice xs r = (xs ! (r 0 mod length xs), advance 1 r)"
  by (simp add: choice_def randbelow_def)

lemma choices_eq:
  "choices k r = (map (\<lambda>i. charlist ! (r i mod length charlist)) [0..<k], advance k r)"
proof (induction k arbitrary: r)
  case 0
  show ?case by (simp add: advance_0)
next
  case (Suc k)
  have "[0..<Suc k] = 0 # map Suc [0..<k]"
    by (simp add: upt_conv_Cons map_Suc_upt del: upt_Suc)
  then have "map (\<lambda>i. charlist ! (r i mod length charlist)) [0..<Suc k] =
        charlist ! (r 0 mod length charlist) #
        map (\<lambda>i. charlist ! (advance 1 r i mod length charlist)) [0..<k]"
    by (simp add: o_def advance_apply del: upt_Suc)
  then show ?case
    by (simp add: Suc.IH choice_eq advance_advance del: upt_Suc)
qed

lemma length_charlist: "length charlist = 2322"
  by (simp add: charlist_def include_ranges_def)

lemma charlist_nonempty: "charlist \<noteq> []"
  using length_charlist by auto

lemma set_charlist:
  "set charlist = (\<Union>current_range \<in> set include_ranges.
                      {fst current_range .. snd current_range})"
  by (auto simp: charlist_def)

lemma flatten_Cons: "flatten (p # rs) = [fst p ..< snd p + 1] @ flatten rs"
  by (simp add: flatten_def)

lemma flatten_lower:
  "increasing rs \<Longrightarrow> x \<in> set (flatten rs) \<Longrightarrow> fst (hd rs) \<le> x"
proof (induction rs rule: increasing.induct)
  case 1
  then show ?case by (simp add: flatten_def)
next
  case (2 p)
  then show ?case by (simp add: flatten_def del: upt_Suc)
next
  case (3 p q rs)
  from "3.prems" have "x \<in> {fst p ..< snd p + 1} \<or> x \<in> set (flatten (q # rs))"
    by (simp add: flatten_Cons del: upt_Suc)
  then show ?case
  proof
    assume "x \<in> {fst p ..< snd p + 1}" then show ?thesis by simp
  next
    assume "x \<in> set (flatten (q # rs))"
    with 3 have "fst q \<le> x" by simp
    with "3.prems" show ?thesis by simp
  qed
qed

lemma flatten_sorted:
  "increasing rs \<Longrightarrow> sorted_wrt (<) (flatten rs)"
proof (induction rs rule: increasing.induct)
  case 1
  then show ?case by (simp add: flatten_def)
next
  case (2 p)
  then show ?case by (simp add: flatten_def del: upt_Suc)
next
  case (3 p q rs)
  have a: "sorted_wrt (<) (flatten (q # rs))" using 3 by simp
  have b: "\<forall>x\<in>set [fst p ..< snd p + 1]. \<forall>y\<in>set (flatten (q # rs)). x < y"
  proof (intro ballI)
    fix x y assume "x \<in> set [fst p ..< snd p + 1]" "y \<in> set (flatten (q # rs))"
    moreover from this 3 have "fst q \<le> y" using flatten_lower [of "q # rs" y] by simp
    ultimately show "x < y" using "3.prems" by (simp del: upt_Suc)
  qed
  have c: "flatten (p # q # rs) = [fst p ..< snd p + 1] @ flatten (q # rs)"
    by (rule flatten_Cons)
  show ?case
    unfolding c sorted_wrt_append using a b sorted_wrt_upt by blast
qed

lemma increasing_include_ranges: "increasing include_ranges" 
  by (simp add: include_ranges_def)

lemma distinct_charlist: "distinct charlist"
proof -
  have "sorted_wrt (<) (flatten include_ranges)" 
    by (rule flatten_sorted [OF increasing_include_ranges])
  then have "sorted_wrt (<) charlist" by (simp only: charlist_def flatten_def)
  then show ?thesis by (simp add: strict_sorted_iff) 
qed

lemma generate_unid_eq:
  "generate_unid n r =
     (map (\<lambda>i. charlist ! (r i mod length charlist)) [0..<nat (max 50 n)],
      advance (nat (max 50 n)) r)"
  by (simp add: generate_unid_def choices_eq max_def)

lemma length_generate_unid: "length (fst (generate_unid n r)) = nat (max 50 n)"
  by (simp add: generate_unid_eq)

lemma set_generate_unid: "set (fst (generate_unid n r)) \<subseteq> set charlist"
proof -
  have "charlist ! (k mod length charlist) \<in> set charlist" for k
    by (rule nth_mem) (simp add: length_charlist)
  then show ?thesis
    by (auto simp: generate_unid_eq)
qed

text \<open>
  C7. For every requested length \<open>n\<close>, \<open>generate_unid\<close> returns \<open>max 50 n\<close>
  characters, so at least 50. The character at position \<open>i\<close> is the entry of
  \<open>charlist\<close> that the \<open>i\<close>-th draw of the selector points at, so the characters are
  chosen one draw each. \<open>charlist\<close> is the union of the inclusive ranges of the table,
  has no repeated entry, so a uniform draw of a position is a uniform draw of a
  character, and holds 2322 characters, more than the 700 asked for.
\<close>

theorem generate_unid_alphabet:
  "length (fst (generate_unid n r)) = nat (max 50 n) \<and>
   50 \<le> length (fst (generate_unid n r)) \<and>
   (\<forall>i < length (fst (generate_unid n r)).
      fst (generate_unid n r) ! i = charlist ! (r i mod length charlist)) \<and>
   snd (generate_unid n r) = advance (length (fst (generate_unid n r))) r \<and>
   set (fst (generate_unid n r)) \<subseteq> set charlist \<and>
   set charlist = (\<Union>current_range \<in> set include_ranges.
                     {fst current_range .. snd current_range}) \<and>
   distinct charlist \<and>
   bij_betw (\<lambda>i. charlist ! i) {..<length charlist} (set charlist) \<and>
   card (set charlist) = 2322 \<and> 700 \<le> card (set charlist)"
proof -
  have len: "length (fst (generate_unid n r)) = nat (max 50 n)"
    by (rule length_generate_unid)
  have nth: "\<forall>i < length (fst (generate_unid n r)).
      fst (generate_unid n r) ! i = charlist ! (r i mod length charlist)"
    by (simp add: generate_unid_eq)
  have rest: "snd (generate_unid n r) = advance (length (fst (generate_unid n r))) r"
    by (simp add: generate_unid_eq)
  have card: "card (set charlist) = 2322"
    using distinct_card [OF distinct_charlist] by (simp add: length_charlist)
  have bij: "bij_betw (\<lambda>i. charlist ! i) {..<length charlist} (set charlist)"
    by (rule bij_betw_nth [OF distinct_charlist]) simp_all
  from len have fifty: "50 \<le> length (fst (generate_unid n r))"
    by simp
  show ?thesis
    using len fifty nth rest set_generate_unid set_charlist distinct_charlist bij card
    by simp
qed

theorem generate_unid_alphabet_witness:
  "length (fst (generate_unid 3 (\<lambda>i. 100 * i))) = 50 \<and>
   fst (generate_unid 3 (\<lambda>i. 100 * i)) ! 30 = charlist ! 678 \<and>
   snd (generate_unid 3 (\<lambda>i. 100 * i)) 0 = 5000 \<and>
   length (fst (generate_unid 64 (\<lambda>i. 100 * i))) = 64"
  using generate_unid_alphabet [of 3 "\<lambda>i. 100 * i"] generate_unid_alphabet [of 64 "\<lambda>i. 100 * i"]
  by (simp add: length_charlist advance_apply)

section \<open>Identifiers in UUID form\<close>

lemma is_hex_hexdigit: "d < 16 \<Longrightarrow> is_hex (hexdigit d)"
  unfolding is_hex_def hexdigit_def by (rule nth_mem) (simp add: u_def)

lemma is_hex_lo: "is_hex (hexdigit (b mod 16))"
  by (rule is_hex_hexdigit) simp

lemma is_hex_hi: "b < 256 \<Longrightarrow> is_hex (hexdigit (b div 16))"
  by (rule is_hex_hexdigit) (simp add: less_mult_imp_div_less)

lemma version_byte: "x mod 16 + 64 < (256::nat)"
proof -
  have "x mod 16 < 16" by simp
  then show ?thesis by linarith
qed

lemma variant_byte: "x mod 64 + 128 < (256::nat)"
proof -
  have "x mod 64 < 64" by simp
  then show ?thesis by linarith
qed

lemma uuid4_eq:
  "uuid4 r = (uuid_str (uuid_bytes (map (\<lambda>i. r i mod 256) [0..<16])), advance 16 r)"
  by (simp add: uuid4_def nacl_random_def)

lemma uuid_form_uuid4: "uuid_form (fst (uuid4 r))"
  by (simp add: uuid4_eq uuid_bytes_def uuid_str_def hex2_def uuid_form_def u_def Let_def
        upt_rec [of 0] upt_rec [of "Suc n" for n]
        is_hex_lo is_hex_hi version_byte variant_byte)


section \<open>The device loop\<close>

declare devices_loop.simps [simp del]

lemma devices_loop_step:
  "i < n \<Longrightarrow>
   devices_loop L n i devs r =
     devices_loop L n (i + 1)
       (devs @ [\<lparr> dev_id = fst (uuid4 (snd (PrivateKey_generate r))),
                  dev_key = keypair_dict L (u ''identity'')
                    (fst (generate_unid 50 (snd (uuid4 (snd (PrivateKey_generate r))))))
                    (fst (PrivateKey_generate r)) \<rparr>])
       (snd (generate_unid 50 (snd (uuid4 (snd (PrivateKey_generate r))))))"
  by (subst devices_loop.simps) (simp add: split_beta Let_def)

lemma devices_loop_stop: "\<not> i < n \<Longrightarrow> devices_loop L n i devs r = (devs, r)"
  by (subst devices_loop.simps) simp

lemma devices_loop_length:
  "length (fst (devices_loop L n i devs r)) = length devs + (n - i)"
proof (induction L n i devs r rule: devices_loop.induct)
  case (1 L n i devs r)
  show ?case
  proof (cases "i < n")
    case True
    have "length (fst (devices_loop L n i devs r)) = length devs + 1 + (n - (i + 1))"
      unfolding devices_loop_step [OF True]
      using "1.IH" [OF True refl prod.collapse refl prod.collapse refl prod.collapse] by simp
    with True show ?thesis by simp
  next
    case False
    then show ?thesis by (simp add: devices_loop_stop)
  qed
qed

lemma devices_loop_ok:
  "list_all (device_ok L) devs \<Longrightarrow> list_all (device_ok L) (fst (devices_loop L n i devs r))"
proof (induction L n i devs r rule: devices_loop.induct)
  case (1 L n i devs r)
  show ?case
  proof (cases "i < n")
    case True
    let ?d = "\<lparr> dev_id = fst (uuid4 (snd (PrivateKey_generate r))),
                  dev_key = keypair_dict L (u ''identity'')
                    (fst (generate_unid 50 (snd (uuid4 (snd (PrivateKey_generate r))))))
                    (fst (PrivateKey_generate r)) \<rparr>"
    have "device_ok L ?d"
      unfolding device_ok_def
      by (intro conjI exI [of _ "fst (generate_unid 50 (snd (uuid4 (snd (PrivateKey_generate r)))))"]
            exI [of _ "fst (PrivateKey_generate r)"])
         (simp_all add: uuid_form_uuid4 length_generate_unid set_generate_unid
            PrivateKey_generate_def nacl_random_def)
    with "1.prems" have "list_all (device_ok L) (devs @ [?d])" by simp
    then show ?thesis
      unfolding devices_loop_step [OF True]
      by (rule "1.IH" [OF True refl prod.collapse refl prod.collapse refl prod.collapse])
  next
    case False
    with "1.prems" show ?thesis by (simp add: devices_loop_stop)
  qed
qed

section \<open>The fields of a generated account\<close>

lemma keys_generate_account:
  "length (keys (fst (generate_account L r))) = 6"
  by (simp add: generate_account_def Let_def split_beta)



lemma pw_generate_account:
  "pwhash (fst (generate_account L r)) =
     argon2id_kdf L KEY_SIZE (utf8 L (password (fst (generate_account L r))))
       (pwsalt (fst (generate_account L r)))
       (argon2id_OPSLIMIT_INTERACTIVE L) (argon2id_MEMLIMIT_INTERACTIVE L) \<and>
   length (pwsalt (fst (generate_account L r))) = argon2id_SALTBYTES L \<and>
   pwhash_b85 (fst (generate_account L r)) = b85encode L (pwhash (fst (generate_account L r))) \<and>
   pwsalt_b85 (fst (generate_account L r)) = b85encode L (pwsalt (fst (generate_account L r)))"
  by (simp add: generate_account_def Let_def split_beta nacl_random_def)

section \<open>When two identifiers coincide\<close>
















section \<open>The password hash\<close>

text \<open>
  C8. Whatever cost parameters the library exports, the password hash of a generated
  account is the output of the KDF asked for \<open>KEY_SIZE\<close> = 32 bytes, so it has that
  length as soon as the KDF returns as many bytes as it is asked for; the salt has
  the length \<open>argon2id.SALTBYTES\<close> that the KDF mandates.
\<close>

theorem pwhash_length:
  assumes "\<And>size pw salt ops mem. length (argon2id_kdf L size pw salt ops mem) = size"
  shows "length (pwhash (fst (generate_account L r))) = KEY_SIZE \<and>
         KEY_SIZE = 32 \<and>
         length (pwsalt (fst (generate_account L r))) = argon2id_SALTBYTES L \<and>
         pwhash (fst (generate_account L r)) =
           argon2id_kdf L KEY_SIZE (utf8 L (password (fst (generate_account L r))))
             (pwsalt (fst (generate_account L r)))
             (argon2id_OPSLIMIT_INTERACTIVE L) (argon2id_MEMLIMIT_INTERACTIVE L)"
proof -
  note f = pw_generate_account [of L r]
  from f have "length (pwhash (fst (generate_account L r))) = KEY_SIZE"
    using assms by simp
  with f show ?thesis by (simp add: KEY_SIZE_def)
qed

theorem pwhash_length_witness:
  "length (pwhash (fst (generate_account ref_lib (\<lambda>i. 7 * i)))) = 32 \<and>
   length (pwsalt (fst (generate_account ref_lib (\<lambda>i. 7 * i)))) = 16"
  using pwhash_length [of ref_lib "\<lambda>i. 7 * i"]
  by (simp add: ref_lib_def KEY_SIZE_def)

section \<open>The devices of a generated account\<close>














lemma wid_at: "wid (fst (generate_account L r)) = fst (uuid4 r)"
  by (simp add: generate_account_def Let_def split_beta)

section \<open>Uniqueness of identifiers\<close>























end
